theory Spec2Isabelle
  imports Main
begin

section \<open>Data model\<close>

text \<open>
  The backend is an Express application over MongoDB (Mongoose models). Every route handler
  is modelled as a function from the database and the request to a response and the new
  database. A collection is the list of its documents; \<open>Model.findOne(filter)\<close> is
  \<open>find\<close> with the filter as a predicate, and \<open>Model.findById(id)\<close> is \<open>find\<close> on
  the \<open>_id\<close> field. An ObjectId is a natural number (route parameters are taken to be
  well-formed ids in canonical form), a \<open>Date\<close> is a natural number, and the storage
  layer itself does not fail: the only exceptions reaching a handler's \<open>catch\<close> block
  (status 500) are the schema validators and hooks that run on \<open>save()\<close>.
  Fields that no modelled handler reads or writes (e-mail address, password, names,
  creation time of an edge) are left out of the records.
\<close>

type_synonym oid = nat
type_synonym date = nat

text \<open>The JSON envelope of a response: the HTTP status code and the \<open>message\<close> field.\<close>

type_synonym response = "nat \<times> string"

text \<open>models/User.js: \<open>status\<close> is one of the strings active, blocked, banned.\<close>

record user =
  user_id :: oid
  username :: string
  messageLink :: string
  isAdmin :: bool
  status :: string
  allowAnonymousMessages :: bool
  emailNotifications :: bool

text \<open>
  models/Message.js. The nested path \<open>reply\<close> always exists on a document;
  \<open>reply.content\<close> and \<open>reply.createdAt\<close> are absent until a reply is written,
  \<open>reply.isPublic\<close> defaults to false.
\<close>

record message =
  m_id :: oid
  m_recipient :: oid
  m_sender :: "oid option"
  m_content :: string
  m_image :: "string option"
  m_isAnonymous :: bool
  m_isRead :: bool
  reply_content :: "string option"
  reply_isPublic :: bool
  reply_createdAt :: "date option"
  m_createdAt :: date

text \<open>models/Follow.js and models/Block.js.\<close>

record follow =
  follower :: oid
  following :: oid

record block =
  blocker :: oid
  blocked :: oid
  reason :: "string option"

text \<open>models/Report.js.\<close>

record report =
  rp_id :: oid
  reporter :: oid
  reportedUser :: "oid option"
  reportedMessage :: "oid option"
  rp_type :: string
  description :: string
  screenshot :: "string option"
  rp_status :: string
  adminNotes :: "string option"
  reviewedBy :: "oid option"
  reviewedAt :: "date option"

text \<open>
  utils/emailService.js: a call of the notifier is recorded in the database record as an
  entry of \<open>mail_log\<close>, so that "the notifier was invoked" is a property of the state.
\<close>

datatype mail = NewMessageNotification string string string bool

record db =
  users :: "user list"
  follows :: "follow list"
  blocks :: "block list"
  messages :: "message list"
  reports :: "report list"
  mail_log :: "mail list"

definition sendNewMessageNotification :: "db \<Rightarrow> string \<Rightarrow> string \<Rightarrow> string \<Rightarrow> bool \<Rightarrow> db" where
  "sendNewMessageNotification s email recipientName senderName isAnon =
     s\<lparr>mail_log := mail_log s @ [NewMessageNotification email recipientName senderName isAnon]\<rparr>"

section \<open>Authentication middleware (middleware/auth.js)\<close>

text \<open>
  The outcome of reading the \<open>Authorization\<close> header and of \<open>jwt.verify\<close>: no token,
  a token that fails verification, an expired token, or a valid token carrying a user id.
\<close>

datatype credential = NoToken | InvalidToken | ExpiredToken | TokenFor oid

definition findUserById :: "db \<Rightarrow> oid \<Rightarrow> user option" where
  "findUserById s i = find (\<lambda>u. user_id u = i) (users s)"

definition authenticateToken :: "db \<Rightarrow> credential \<Rightarrow> response + user" where
  "authenticateToken s c =
     (case c of
        NoToken \<Rightarrow> Inl (401, ''Access token required'')
      | ExpiredToken \<Rightarrow> Inl (401, ''Token expired'')
      | InvalidToken \<Rightarrow> Inl (401, ''Invalid token'')
      | TokenFor i \<Rightarrow>
          (case findUserById s i of
             None \<Rightarrow> Inl (401, ''Invalid token - user not found'')
           | Some u \<Rightarrow>
               if status u \<noteq> ''active'' then Inl (403, ''Account is blocked or banned'')
               else Inr u))"

definition requireAdmin :: "user \<Rightarrow> response + user" where
  "requireAdmin reqUser =
     (if \<not> isAdmin reqUser then Inl (403, ''Admin access required'') else Inr reqUser)"

definition optionalAuth :: "db \<Rightarrow> credential \<Rightarrow> user option" where
  "optionalAuth s c =
     (case c of
        TokenFor i \<Rightarrow>
          (case findUserById s i of
             Some u \<Rightarrow> if status u = ''active'' then Some u else None
           | None \<Rightarrow> None)
      | _ \<Rightarrow> None)"

section \<open>Message routes (routes/messages.js)\<close>

subsection \<open>POST /messages/send\<close>

text \<open>
  The request body; a field that is absent is \<open>None\<close>. \<open>sendMessageSchema\<close> requires
  \<open>recipientId\<close> and a \<open>content\<close> of 1 to 500 characters, allows any string for
  \<open>image\<close> and defaults \<open>isAnonymous\<close> to true. The text of a validation error is
  Joi's, written here without its quotation marks. Bodies with a value of the wrong JSON
  type or with an unknown key, which the schema also rejects with 400, are not values of
  the record.
\<close>

record send_body =
  sb_recipientId :: "oid option"
  sb_content :: "string option"
  sb_image :: "string option"
  sb_isAnonymous :: "bool option"

definition sendMessageSchema :: "send_body \<Rightarrow> string + (oid \<times> string \<times> string option \<times> bool)" where
  "sendMessageSchema body =
     (case sb_recipientId body of
        None \<Rightarrow> Inl ''recipientId is required''
      | Some recipientId \<Rightarrow>
          (case sb_content body of
             None \<Rightarrow> Inl ''content is required''
           | Some content \<Rightarrow>
               if content = [] then Inl ''content is not allowed to be empty''
               else if length content > 500
                 then Inl ''content length must be less than or equal to 500 characters long''
               else Inr (recipientId, content, sb_image body,
                         (case sb_isAnonymous body of None \<Rightarrow> True | Some b \<Rightarrow> b))))"

definition isBlockedEitherWay :: "db \<Rightarrow> oid \<Rightarrow> oid \<Rightarrow> block option" where
  "isBlockedEitherWay s a b =
     find (\<lambda>k. (blocker k = a \<and> blocked k = b) \<or> (blocker k = b \<and> blocked k = a)) (blocks s)"

text \<open>The document built by \<open>new Message({...})\<close>, with the schema defaults filled in.\<close>

definition newMessage ::
  "user option \<Rightarrow> oid \<Rightarrow> string \<Rightarrow> string option \<Rightarrow> bool \<Rightarrow> oid \<Rightarrow> date \<Rightarrow> message" where
  "newMessage reqUser recipientId content img isAnonymous newId now =
     \<lparr>m_id = newId,
      m_recipient = recipientId,
      m_sender = (case reqUser of
                    Some ru \<Rightarrow> if \<not> isAnonymous then Some (user_id ru) else None
                  | None \<Rightarrow> None),
      m_content = content,
      m_image = img,
      m_isAnonymous = isAnonymous,
      m_isRead = False,
      reply_content = None,
      reply_isPublic = False,
      reply_createdAt = None,
      m_createdAt = now\<rparr>"

definition post_send :: "db \<Rightarrow> user option \<Rightarrow> send_body \<Rightarrow> oid \<Rightarrow> date \<Rightarrow> response \<times> db" where
  "post_send s reqUser body newId now =
     (case sendMessageSchema body of
        Inl msg \<Rightarrow> ((400, msg), s)
      | Inr (recipientId, content, img, isAnonymous) \<Rightarrow>
          (case find (\<lambda>u. user_id u = recipientId \<and> status u = ''active'') (users s) of
             None \<Rightarrow> ((404, ''Recipient not found''), s)
           | Some recipient \<Rightarrow>
               if isAnonymous \<and> \<not> allowAnonymousMessages recipient
                 then ((403, ''This user doesn't accept anonymous messages''), s)
               else
                 (case (case reqUser of
                          None \<Rightarrow> None
                        | Some ru \<Rightarrow>
                            if isBlockedEitherWay s (user_id ru) recipientId \<noteq> None
                              then Some (403, ''Cannot send message to this user'')
                            else if user_id ru = recipientId
                              then Some (400, ''Cannot send message to yourself'')
                            else None) of
                    Some e \<Rightarrow> (e, s)
                  | None \<Rightarrow>
                      ((201, ''Message sent successfully''),
                       s\<lparr>messages := messages s @
                           [newMessage reqUser recipientId content img isAnonymous newId now]\<rparr>))))"

definition route_post_send :: "db \<Rightarrow> credential \<Rightarrow> send_body \<Rightarrow> oid \<Rightarrow> date \<Rightarrow> response \<times> db" where
  "route_post_send s c body newId now = post_send s (optionalAuth s c) body newId now"

subsection \<open>GET /messages/inbox\<close>

text \<open>
  \<open>populate("sender", ...)\<close> replaces the sender id by the selected fields of that user,
  or by null when there is no such user. The query parameters \<open>page\<close> and \<open>limit\<close> are
  the parsed numbers (absent, unparsable or zero gives the default); negative numbers are
  outside the model. Messages are sorted by descending creation time, messages of equal
  time staying in stored order. Of the response data, the page of projected messages and
  the unread count are modelled; a successful response carries no message.
\<close>

record sender_info =
  si_id :: oid
  si_username :: string

record inbox_item =
  i_id :: oid
  i_content :: string
  i_image :: "string option"
  i_isAnonymous :: bool
  i_isRead :: bool
  i_sender :: "sender_info option"
  i_reply :: "string option \<times> bool \<times> date option"
  i_createdAt :: date

definition populateSender :: "db \<Rightarrow> message \<Rightarrow> sender_info option" where
  "populateSender s m =
     (case m_sender m of
        None \<Rightarrow> None
      | Some i \<Rightarrow> map_option (\<lambda>u. \<lparr>si_id = user_id u, si_username = username u\<rparr>) (findUserById s i))"

definition formatMessage :: "db \<Rightarrow> message \<Rightarrow> inbox_item" where
  "formatMessage s m =
     \<lparr>i_id = m_id m,
      i_content = m_content m,
      i_image = m_image m,
      i_isAnonymous = m_isAnonymous m,
      i_isRead = m_isRead m,
      i_sender = (if m_isAnonymous m then None else populateSender s m),
      i_reply = (reply_content m, reply_isPublic m, reply_createdAt m),
      i_createdAt = m_createdAt m\<rparr>"

definition queryNumber :: "nat option \<Rightarrow> nat \<Rightarrow> nat" where
  "queryNumber q d = (case q of None \<Rightarrow> d | Some n \<Rightarrow> if n = 0 then d else n)"

definition get_inbox :: "db \<Rightarrow> user \<Rightarrow> nat option \<Rightarrow> nat option \<Rightarrow> response \<times> inbox_item list \<times> nat" where
  "get_inbox s reqUser qpage qlimit =
     (let page = queryNumber qpage 1;
          limit = queryNumber qlimit 20;
          skip = (page - 1) * limit;
          mine = filter (\<lambda>m. m_recipient m = user_id reqUser) (messages s);
          found = take limit (drop skip (sort_key (\<lambda>m. - int (m_createdAt m)) mine));
          unreadCount = length (filter (\<lambda>m. \<not> m_isRead m) mine)
      in ((200, []), map (formatMessage s) found, unreadCount))"


subsection \<open>PUT /messages/:messageId/read\<close>

text \<open>
  \<open>message.save()\<close> on a loaded document writes the modified paths to the document
  with that \<open>_id\<close>.
\<close>

definition findOwnMessage :: "db \<Rightarrow> oid \<Rightarrow> oid \<Rightarrow> message option" where
  "findOwnMessage s messageId uid =
     find (\<lambda>m. m_id m = messageId \<and> m_recipient m = uid) (messages s)"

definition markRead :: "oid \<Rightarrow> message list \<Rightarrow> message list" where
  "markRead messageId ms =
     map (\<lambda>m. if m_id m = messageId then m\<lparr>m_isRead := True\<rparr> else m) ms"

definition put_read :: "db \<Rightarrow> user \<Rightarrow> oid \<Rightarrow> response \<times> db" where
  "put_read s reqUser messageId =
     (case findOwnMessage s messageId (user_id reqUser) of
        None \<Rightarrow> ((404, ''Message not found''), s)
      | Some message \<Rightarrow>
          ((200, ''Message marked as read''),
           s\<lparr>messages := markRead (m_id message) (messages s)\<rparr>))"

definition route_put_read :: "db \<Rightarrow> credential \<Rightarrow> oid \<Rightarrow> response \<times> db" where
  "route_put_read s c messageId =
     (case authenticateToken s c of
        Inl e \<Rightarrow> (e, s)
      | Inr reqUser \<Rightarrow> put_read s reqUser messageId)"

subsection \<open>POST /messages/:messageId/reply\<close>

record reply_body =
  rb_content :: "string option"
  rb_isPublic :: "bool option"

definition replyMessageSchema :: "reply_body \<Rightarrow> string + (string \<times> bool)" where
  "replyMessageSchema body =
     (case rb_content body of
        None \<Rightarrow> Inl ''content is required''
      | Some content \<Rightarrow>
          if content = [] then Inl ''content is not allowed to be empty''
          else if length content > 500
            then Inl ''content length must be less than or equal to 500 characters long''
          else Inr (content, (case rb_isPublic body of None \<Rightarrow> False | Some b \<Rightarrow> b)))"

text \<open>The test \<open>message.reply && message.reply.content\<close>: a non-empty string is truthy.\<close>

definition hasReply :: "message \<Rightarrow> bool" where
  "hasReply m = (case reply_content m of None \<Rightarrow> False | Some c \<Rightarrow> c \<noteq> [])"

definition writeReply :: "oid \<Rightarrow> string \<Rightarrow> bool \<Rightarrow> date \<Rightarrow> message list \<Rightarrow> message list" where
  "writeReply messageId content isPublic now ms =
     map (\<lambda>m. if m_id m = messageId
               then m\<lparr>reply_content := Some content, reply_isPublic := isPublic,
                      reply_createdAt := Some now, m_isRead := True\<rparr>
               else m) ms"

definition post_reply :: "db \<Rightarrow> user \<Rightarrow> oid \<Rightarrow> reply_body \<Rightarrow> date \<Rightarrow> response \<times> db" where
  "post_reply s reqUser messageId body now =
     (case replyMessageSchema body of
        Inl msg \<Rightarrow> ((400, msg), s)
      | Inr (content, isPublic) \<Rightarrow>
          (case findOwnMessage s messageId (user_id reqUser) of
             None \<Rightarrow> ((404, ''Message not found''), s)
           | Some message \<Rightarrow>
               if hasReply message then ((400, ''Message already has a reply''), s)
               else ((200, ''Reply sent successfully''),
                     s\<lparr>messages := writeReply (m_id message) content isPublic now (messages s)\<rparr>)))"

definition route_post_reply :: "db \<Rightarrow> credential \<Rightarrow> oid \<Rightarrow> reply_body \<Rightarrow> date \<Rightarrow> response \<times> db" where
  "route_post_reply s c messageId body now =
     (case authenticateToken s c of
        Inl e \<Rightarrow> (e, s)
      | Inr reqUser \<Rightarrow> post_reply s reqUser messageId body now)"

subsection \<open>POST /messages/:messageId/report\<close>

text \<open>
  The handler tests \<open>!type || !description\<close> itself (an absent or empty string is falsy).
  \<open>report.save()\<close> runs the schema validators: \<open>type\<close> must be one of the enumerated
  strings and \<open>description\<close> at most 500 characters; a validation error is caught and
  answered with 500.
\<close>

record report_body =
  rq_type :: "string option"
  rq_description :: "string option"
  rq_screenshot :: "string option"

definition reportTypes :: "string list" where
  "reportTypes = [''spam'', ''harassment'', ''inappropriate_content'', ''fake_account'', ''other'']"

definition saveReport :: "report \<Rightarrow> report list \<Rightarrow> report list option" where
  "saveReport r rs =
     (if rp_type r \<notin> set reportTypes \<or> length (description r) > 500 then None
      else Some (rs @ [r]))"

definition findMessageById :: "db \<Rightarrow> oid \<Rightarrow> message option" where
  "findMessageById s i = find (\<lambda>m. m_id m = i) (messages s)"

definition post_report :: "db \<Rightarrow> user \<Rightarrow> oid \<Rightarrow> report_body \<Rightarrow> oid \<Rightarrow> response \<times> db" where
  "post_report s reqUser messageId body newId =
     (case (rq_type body, rq_description body) of
        (Some ty, Some descr) \<Rightarrow>
          if ty = [] \<or> descr = [] then ((400, ''Type and description are required''), s)
          else
            (case findMessageById s messageId of
               None \<Rightarrow> ((404, ''Message not found''), s)
             | Some message \<Rightarrow>
                 (case find (\<lambda>r. reporter r = user_id reqUser \<and>
                                  reportedMessage r = Some (m_id message)) (reports s) of
                    Some existingReport \<Rightarrow> ((400, ''Message already reported''), s)
                  | None \<Rightarrow>
                      (case saveReport
                              \<lparr>rp_id = newId,
                               reporter = user_id reqUser,
                               reportedUser = m_sender message,
                               reportedMessage = Some (m_id message),
                               rp_type = ty,
                               description = descr,
                               screenshot = rq_screenshot body,
                               rp_status = ''pending'',
                               adminNotes = None,
                               reviewedBy = None,
                               reviewedAt = None\<rparr> (reports s) of
                         None \<Rightarrow> ((500, ''Failed to submit report''), s)
                       | Some rs \<Rightarrow>
                           ((200, ''Report submitted successfully''), s\<lparr>reports := rs\<rparr>))))
      | _ \<Rightarrow> ((400, ''Type and description are required''), s))"

definition route_post_report :: "db \<Rightarrow> credential \<Rightarrow> oid \<Rightarrow> report_body \<Rightarrow> oid \<Rightarrow> response \<times> db" where
  "route_post_report s c messageId body newId =
     (case authenticateToken s c of
        Inl e \<Rightarrow> (e, s)
      | Inr reqUser \<Rightarrow> post_report s reqUser messageId body newId)"

section \<open>User routes (routes/users.js)\<close>

subsection \<open>GET /users/:identifier\<close>

text \<open>
  The data of a successful lookup: the id of the profile shown, the two follow counts,
  \<open>isFollowing\<close> and \<open>canSendMessage\<close>. A successful response carries no message.
\<close>

record profile_data =
  pd_user :: oid
  followersCount :: nat
  followingCount :: nat
  isFollowing :: bool
  canSendMessage :: bool

definition get_user :: "db \<Rightarrow> user option \<Rightarrow> string \<Rightarrow> response \<times> profile_data option" where
  "get_user s reqUser identifier =
     (case find (\<lambda>u. (username u = identifier \<or> messageLink u = identifier) \<and> status u = ''active'')
             (users s) of
        None \<Rightarrow> ((404, ''User not found''), None)
      | Some u \<Rightarrow>
          if (case reqUser of
                None \<Rightarrow> False
              | Some ru \<Rightarrow>
                  find (\<lambda>k. blocker k = user_id u \<and> blocked k = user_id ru) (blocks s) \<noteq> None)
            then ((403, ''You are blocked by this user''), None)
          else
            ((200, []),
             Some \<lparr>pd_user = user_id u,
                   followersCount = length (filter (\<lambda>f. following f = user_id u) (follows s)),
                   followingCount = length (filter (\<lambda>f. follower f = user_id u) (follows s)),
                   isFollowing =
                     (case reqUser of
                        None \<Rightarrow> False
                      | Some ru \<Rightarrow>
                          find (\<lambda>f. follower f = user_id ru \<and> following f = user_id u) (follows s)
                            \<noteq> None),
                   canSendMessage = (allowAnonymousMessages u \<or> reqUser \<noteq> None)\<rparr>))"

definition route_get_user :: "db \<Rightarrow> credential \<Rightarrow> string \<Rightarrow> response \<times> profile_data option" where
  "route_get_user s c identifier = get_user s (optionalAuth s c) identifier"

subsection \<open>POST /users/:userId/follow\<close>

text \<open>
  \<open>follow.save()\<close> runs the pre-save hook (no self-follow) and the unique index on the
  ordered pair; either failure is an exception, answered with 500.
\<close>

definition saveFollow :: "follow \<Rightarrow> follow list \<Rightarrow> follow list option" where
  "saveFollow f fs =
     (if follower f = following f then None
      else if find (\<lambda>g. follower g = follower f \<and> following g = following f) fs \<noteq> None then None
      else Some (fs @ [f]))"

definition post_follow :: "db \<Rightarrow> user \<Rightarrow> oid \<Rightarrow> response \<times> db" where
  "post_follow s reqUser userId =
     (if userId = user_id reqUser then ((400, ''Cannot follow yourself''), s)
      else
        (case find (\<lambda>u. user_id u = userId \<and> status u = ''active'') (users s) of
           None \<Rightarrow> ((404, ''User not found''), s)
         | Some userToFollow \<Rightarrow>
             (case find (\<lambda>f. follower f = user_id reqUser \<and> following f = userId) (follows s) of
                Some existingFollow \<Rightarrow> ((400, ''Already following this user''), s)
              | None \<Rightarrow>
                  (case isBlockedEitherWay s (user_id reqUser) userId of
                     Some isBlocked \<Rightarrow> ((403, ''Cannot follow this user''), s)
                   | None \<Rightarrow>
                       (case saveFollow \<lparr>follower = user_id reqUser, following = userId\<rparr> (follows s) of
                          None \<Rightarrow> ((500, ''Failed to follow user''), s)
                        | Some fs \<Rightarrow> ((200, ''Successfully followed user''), s\<lparr>follows := fs\<rparr>))))))"

definition route_post_follow :: "db \<Rightarrow> credential \<Rightarrow> oid \<Rightarrow> response \<times> db" where
  "route_post_follow s c userId =
     (case authenticateToken s c of
        Inl e \<Rightarrow> (e, s)
      | Inr reqUser \<Rightarrow> post_follow s reqUser userId)"

subsection \<open>POST /users/:userId/block\<close>

text \<open>
  \<open>block.save()\<close> runs the validator of \<open>reason\<close> (at most 200 characters), the pre-save
  hook (no self-block) and the unique index on the ordered pair. The follow edges are
  deleted after the block is saved.
\<close>

definition saveBlock :: "block \<Rightarrow> block list \<Rightarrow> block list option" where
  "saveBlock b bs =
     (if (case reason b of None \<Rightarrow> False | Some r \<Rightarrow> length r > 200) then None
      else if blocker b = blocked b then None
      else if find (\<lambda>k. blocker k = blocker b \<and> blocked k = blocked b) bs \<noteq> None then None
      else Some (bs @ [b]))"

definition deleteFollowsBetween :: "oid \<Rightarrow> oid \<Rightarrow> follow list \<Rightarrow> follow list" where
  "deleteFollowsBetween a b fs =
     filter (\<lambda>f. \<not> ((follower f = a \<and> following f = b) \<or> (follower f = b \<and> following f = a))) fs"

definition post_block :: "db \<Rightarrow> user \<Rightarrow> oid \<Rightarrow> string option \<Rightarrow> response \<times> db" where
  "post_block s reqUser userId rsn =
     (if userId = user_id reqUser then ((400, ''Cannot block yourself''), s)
      else
        (case findUserById s userId of
           None \<Rightarrow> ((404, ''User not found''), s)
         | Some userToBlock \<Rightarrow>
             (case find (\<lambda>k. blocker k = user_id reqUser \<and> blocked k = userId) (blocks s) of
                Some existingBlock \<Rightarrow> ((400, ''User already blocked''), s)
              | None \<Rightarrow>
                  (case saveBlock \<lparr>blocker = user_id reqUser, blocked = userId, reason = rsn\<rparr>
                          (blocks s) of
                     None \<Rightarrow> ((500, ''Failed to block user''), s)
                   | Some bs \<Rightarrow>
                       ((200, ''User blocked successfully''),
                        s\<lparr>blocks := bs,
                          follows := deleteFollowsBetween (user_id reqUser) userId (follows s)\<rparr>)))))"

definition route_post_block :: "db \<Rightarrow> credential \<Rightarrow> oid \<Rightarrow> string option \<Rightarrow> response \<times> db" where
  "route_post_block s c userId rsn =
     (case authenticateToken s c of
        Inl e \<Rightarrow> (e, s)
      | Inr reqUser \<Rightarrow> post_block s reqUser userId rsn)"

section \<open>Admin routes (routes/admin.js)\<close>

text \<open>Every admin route runs \<open>authenticateToken\<close> and then \<open>requireAdmin\<close>.\<close>

definition adminOnly :: "db \<Rightarrow> credential \<Rightarrow> response + user" where
  "adminOnly s c =
     (case authenticateToken s c of
        Inl e \<Rightarrow> Inl e
      | Inr reqUser \<Rightarrow> requireAdmin reqUser)"

subsection \<open>PUT /admin/users/:userId/status\<close>

definition setUserStatus :: "oid \<Rightarrow> string \<Rightarrow> user list \<Rightarrow> user list" where
  "setUserStatus i st us = map (\<lambda>u. if user_id u = i then u\<lparr>status := st\<rparr> else u) us"

definition put_user_status :: "db \<Rightarrow> user \<Rightarrow> oid \<Rightarrow> string \<Rightarrow> response \<times> db" where
  "put_user_status s reqUser userId st =
     (if st \<notin> set [''active'', ''blocked'', ''banned'']
        then ((400, ''Invalid status. Must be 'active', 'blocked', or 'banned'' @ [CHR 0x27]), s)
      else
        (case findUserById s userId of
           None \<Rightarrow> ((404, ''User not found''), s)
         | Some u \<Rightarrow>
             if user_id u = user_id reqUser then ((400, ''Cannot change your own status''), s)
             else if isAdmin u \<and> \<not> isAdmin reqUser
               then ((403, ''Cannot change status of admin users''), s)
             else ((200, ''User status updated to '' @ st),
                   s\<lparr>users := setUserStatus (user_id u) st (users s)\<rparr>)))"

definition route_put_user_status :: "db \<Rightarrow> credential \<Rightarrow> oid \<Rightarrow> string \<Rightarrow> response \<times> db" where
  "route_put_user_status s c userId st =
     (case adminOnly s c of
        Inl e \<Rightarrow> (e, s)
      | Inr reqUser \<Rightarrow> put_user_status s reqUser userId st)"

subsection \<open>PUT /admin/reports/:reportId/review\<close>

text \<open>
  \<open>report.save()\<close> validates the modified \<open>adminNotes\<close> (at most 500 characters); a
  validation error is caught and answered with 500 before any action is taken.
  \<open>action\<close> is \<open>action.type\<close> when the body has one. \<open>User.findByIdAndUpdate\<close> and
  \<open>Message.findByIdAndDelete\<close> do nothing when there is no such document.
\<close>

definition reviewReport :: "oid \<Rightarrow> string \<Rightarrow> string option \<Rightarrow> oid \<Rightarrow> date \<Rightarrow> report list \<Rightarrow> report list" where
  "reviewReport i st notes reviewer now rs =
     map (\<lambda>r. if rp_id r = i
               then r\<lparr>rp_status := st, adminNotes := notes,
                      reviewedBy := Some reviewer, reviewedAt := Some now\<rparr>
               else r) rs"

definition takeAction :: "string option \<Rightarrow> report \<Rightarrow> db \<Rightarrow> db" where
  "takeAction action rep s =
     (case action of
        None \<Rightarrow> s
      | Some ty \<Rightarrow>
          if ty = ''delete_message'' then
            (case reportedMessage rep of
               None \<Rightarrow> s
             | Some mid \<Rightarrow> s\<lparr>messages := filter (\<lambda>m. m_id m \<noteq> mid) (messages s)\<rparr>)
          else if ty = ''block_user'' then
            (case reportedUser rep of
               None \<Rightarrow> s
             | Some uid \<Rightarrow> s\<lparr>users := setUserStatus uid ''blocked'' (users s)\<rparr>)
          else if ty = ''ban_user'' then
            (case reportedUser rep of
               None \<Rightarrow> s
             | Some uid \<Rightarrow> s\<lparr>users := setUserStatus uid ''banned'' (users s)\<rparr>)
          else s)"

definition put_report_review ::
  "db \<Rightarrow> user \<Rightarrow> oid \<Rightarrow> string \<Rightarrow> string option \<Rightarrow> string option \<Rightarrow> date \<Rightarrow> response \<times> db" where
  "put_report_review s reqUser reportId st notes action now =
     (if st \<notin> set [''reviewed'', ''resolved'', ''dismissed'']
        then ((400, ''Invalid status. Must be 'reviewed', 'resolved', or 'dismissed'' @ [CHR 0x27]), s)
      else
        (case find (\<lambda>r. rp_id r = reportId) (reports s) of
           None \<Rightarrow> ((404, ''Report not found''), s)
         | Some rep \<Rightarrow>
             if (case notes of None \<Rightarrow> False | Some n \<Rightarrow> length n > 500)
               then ((500, ''Failed to review report''), s)
             else
               ((200, ''Report reviewed successfully''),
                takeAction action rep
                  (s\<lparr>reports := reviewReport (rp_id rep) st notes (user_id reqUser) now (reports s)\<rparr>))))"

definition route_put_report_review ::
  "db \<Rightarrow> credential \<Rightarrow> oid \<Rightarrow> string \<Rightarrow> string option \<Rightarrow> string option \<Rightarrow> date \<Rightarrow> response \<times> db" where
  "route_put_report_review s c reportId st notes action now =
     (case adminOnly s c of
        Inl e \<Rightarrow> (e, s)
      | Inr reqUser \<Rightarrow> put_report_review s reqUser reportId st notes action now)"

section \<open>Example states\<close>

text \<open>Concrete users and databases on which the handlers are evaluated below.\<close>

definition mkUser :: "oid \<Rightarrow> string \<Rightarrow> bool \<Rightarrow> string \<Rightarrow> user" where
  "mkUser i name adm st =
     \<lparr>user_id = i, username = name, messageLink = name, isAdmin = adm, status = st,
      allowAnonymousMessages = True, emailNotifications = True\<rparr>"

definition emptyDb :: db where
  "emptyDb = \<lparr>users = [], follows = [], blocks = [], messages = [], reports = [], mail_log = []\<rparr>"

definition root :: user where "root = mkUser 1 ''root'' True ''active''"

definition ops :: user where "ops = mkUser 2 ''ops'' True ''active''"

definition alice :: user where "alice = mkUser 3 ''alice'' False ''active''"

definition bob :: user where "bob = mkUser 4 ''bob'' False ''active''"

definition mallory :: user where "mallory = mkUser 5 ''mallory'' False ''banned''"

definition people :: db where
  "people = emptyDb\<lparr>users := [root, ops, alice, bob, mallory]\<rparr>"

definition hello :: send_body where
  "hello = \<lparr>sb_recipientId = Some 4, sb_content = Some ''hello'', sb_image = None, sb_isAnonymous = Some True\<rparr>"

definition feud :: db where
  "feud = people\<lparr>blocks := [\<lparr>blocker = 4, blocked = 5, reason = None\<rparr>]\<rparr>"

definition selfReport :: report where
  "selfReport =
     \<lparr>rp_id = 20, reporter = 3, reportedUser = Some 1, reportedMessage = Some 10,
      rp_type = ''spam'', description = ''unwanted'', screenshot = None, rp_status = ''pending'',
      adminNotes = None, reviewedBy = None, reviewedAt = None\<rparr>"

definition docket :: db where
  "docket = people\<lparr>reports := [selfReport]\<rparr>"

definition edge :: "oid \<Rightarrow> oid \<Rightarrow> follow" where
  "edge a b = \<lparr>follower = a, following = b\<rparr>"

definition friends :: db where
  "friends = people\<lparr>follows := [edge 3 4, edge 4 3]\<rparr>"

definition estranged :: db where
  "estranged = people\<lparr>blocks := [\<lparr>blocker = 3, blocked = 4, reason = None\<rparr>]\<rparr>"

definition leaked :: message where
  "leaked = (newMessage None 4 ''psst'' None True 11 8)\<lparr>m_sender := Some 3\<rparr>"

definition inboxDb :: db where
  "inboxDb = people\<lparr>messages := [leaked]\<rparr>"

definition seenReport :: report where
  "seenReport = selfReport\<lparr>rp_status := ''reviewed'', adminNotes := Some ''seen'',
                            reviewedBy := Some 1, reviewedAt := Some 8\<rparr>"

definition archive :: db where
  "archive = people\<lparr>reports := [seenReport]\<rparr>"

definition grudge :: db where
  "grudge = people\<lparr>blocks := [\<lparr>blocker = 3, blocked = 4, reason = None\<rparr>]\<rparr>"

definition answered :: message where
  "answered = (newMessage None 4 ''hi'' None True 12 5)\<lparr>reply_content := Some ''thanks'',
       reply_isPublic := True, reply_createdAt := Some 6, m_isRead := True\<rparr>"

definition busy :: db where
  "busy = people\<lparr>follows := [edge 3 4], messages := [answered],
                 reports := [selfReport\<lparr>reportedUser := None, reportedMessage := Some 12\<rparr>]\<rparr>"

definition again :: reply_body where
  "again = \<lparr>rb_content = Some ''more'', rb_isPublic = None\<rparr>"

definition complaint :: report_body where
  "complaint = \<lparr>rq_type = Some ''spam'', rq_description = Some ''junk'', rq_screenshot = None\<rparr>"

section \<open>Properties\<close>

subsection \<open>Auxiliary facts about the collections\<close>

lemmas example_defs = mkUser_def emptyDb_def root_def ops_def alice_def bob_def mallory_def people_def

lemma find_Some_pred: "find P xs = Some x \<Longrightarrow> P x"
  by (induction xs) (auto split: if_splits)

lemma find_markRead:
  "find (\<lambda>m. m_id m = i \<and> m_recipient m = u) (markRead j ms) =
   map_option (\<lambda>m. if m_id m = j then m\<lparr>m_isRead := True\<rparr> else m)
     (find (\<lambda>m. m_id m = i \<and> m_recipient m = u) ms)"
  by (induction ms) (auto simp: markRead_def)

lemma markRead_idem: "markRead i (markRead i ms) = markRead i ms"
  by (induction ms) (auto simp: markRead_def)

lemma find_setUserStatus:
  "find (\<lambda>u. user_id u = i) (setUserStatus j st us) =
   map_option (\<lambda>u. if user_id u = j then u\<lparr>status := st\<rparr> else u) (find (\<lambda>u. user_id u = i) us)"
  by (induction us) (auto simp: setUserStatus_def)

lemma find_reviewReport:
  "find (\<lambda>r. rp_id r = i) (reviewReport i st notes reviewer now rs) =
   map_option (\<lambda>r. r\<lparr>rp_status := st, adminNotes := notes,
                     reviewedBy := Some reviewer, reviewedAt := Some now\<rparr>)
     (find (\<lambda>r. rp_id r = i) rs)"
  by (induction rs) (auto simp: reviewReport_def)

lemma reports_takeAction: "reports (takeAction action rep s) = reports s"
  by (simp add: takeAction_def split: option.splits)

subsection \<open>Status change by an admin\<close>

text \<open>
  The guard \<open>user.isAdmin && !req.user.isAdmin\<close> of the status route can never fire
  behind \<open>requireAdmin\<close>: whoever reaches the handler is an admin.
\<close>

lemma admin_guard_unreachable:
  assumes "adminOnly s c = Inr reqUser"
  shows "fst (put_user_status s reqUser userId st) \<noteq> (403, ''Cannot change status of admin users'')"
proof -
  from assms have "isAdmin reqUser"
    by (auto simp: adminOnly_def requireAdmin_def split: sum.splits if_splits)
  then show ?thesis
    by (simp add: put_user_status_def split: option.splits)
qed

text \<open>
  Claim C1 says that a status change whose target is another admin is rejected with
  Forbidden and leaves the target's status unchanged. Evaluated on the code: the admin
  root (id 1) sets the status of the admin ops (id 2) to banned; the route answers 200 and
  ops is banned.
\<close>

theorem admin_changes_other_admin_status:
  "route_put_user_status people (TokenFor 1) 2 ''banned'' =
     ((200, ''User status updated to banned''),
      people\<lparr>users := [root, ops\<lparr>status := ''banned''\<rparr>, alice, bob, mallory]\<rparr>)"
  by (simp add: route_put_user_status_def adminOnly_def authenticateToken_def requireAdmin_def
      put_user_status_def findUserById_def setUserStatus_def example_defs)

subsection \<open>Block and follow\<close>

lemma post_block_ok:
  assumes "post_block s a b rsn = ((200, msg), s')"
  shows "b \<noteq> user_id a \<and>
         s' = s\<lparr>blocks := blocks s @ [\<lparr>blocker = user_id a, blocked = b, reason = rsn\<rparr>],
                follows := deleteFollowsBetween (user_id a) b (follows s)\<rparr>"
  using assms
  by (auto simp: post_block_def saveBlock_def split: if_splits option.splits)

lemma post_follow_blocked:
  assumes edge: "\<exists>k\<in>set (blocks t). (blocker k = user_id ru \<and> blocked k = tgt) \<or>
                                   (blocker k = tgt \<and> blocked k = user_id ru)"
    and ne: "tgt \<noteq> user_id ru"
    and nofollow: "\<forall>f\<in>set (follows t). \<not> (follower f = user_id ru \<and> following f = tgt)"
  shows "post_follow t ru tgt =
           ((if find (\<lambda>u. user_id u = tgt \<and> status u = ''active'') (users t) = None
             then (404, ''User not found'') else (403, ''Cannot follow this user'')), t)"
proof -
  have b: "isBlockedEitherWay t (user_id ru) tgt \<noteq> None"
    using edge by (auto simp: isBlockedEitherWay_def find_None_iff)
  have f: "find (\<lambda>f. follower f = user_id ru \<and> following f = tgt) (follows t) = None"
    using nofollow by (simp add: find_None_iff)
  show ?thesis
    using b ne f by (auto simp: post_follow_def split: option.splits)
qed

text \<open>
  No handler creates a follow edge between two users while a block edge joins them: Follow
  adds an edge only between users that no block joins, and Block adds none.
\<close>

lemma post_follow_adds_no_blocked_edge:
  assumes "\<exists>k\<in>set (blocks t). (blocker k = x \<and> blocked k = y) \<or> (blocker k = y \<and> blocked k = x)"
    and "f \<in> set (follows (snd (post_follow t ru z)))"
    and "(follower f = x \<and> following f = y) \<or> (follower f = y \<and> following f = x)"
  shows "f \<in> set (follows t) \<and> blocks (snd (post_follow t ru z)) = blocks t"
proof (cases "fst (fst (post_follow t ru z)) = 200")
  case False
  then have "snd (post_follow t ru z) = t"
    by (auto simp: post_follow_def saveFollow_def split: option.splits if_splits)
  with assms(2) show ?thesis by simp
next
  case True
  then have nb: "isBlockedEitherWay t (user_id ru) z = None"
    and new: "snd (post_follow t ru z) =
                t\<lparr>follows := follows t @ [\<lparr>follower = user_id ru, following = z\<rparr>]\<rparr>"
    by (auto simp: post_follow_def saveFollow_def split: option.splits if_splits)
  from nb have "\<not> (\<exists>k\<in>set (blocks t). (blocker k = user_id ru \<and> blocked k = z) \<or>
                                      (blocker k = z \<and> blocked k = user_id ru))"
    by (auto simp: isBlockedEitherWay_def find_None_iff)
  with assms(1,3) have "f \<noteq> \<lparr>follower = user_id ru, following = z\<rparr>"
    by auto
  with assms(2) new show ?thesis by simp
qed

lemma post_block_adds_no_edge:
  "set (follows (snd (post_block s ru z rsn))) \<subseteq> set (follows s)"
  by (auto simp: post_block_def saveBlock_def deleteFollowsBetween_def split: option.splits if_splits)

text \<open>
  Claim C2, as stated, asks that after Block(a,b) every Follow between the two fails with
  Forbidden. The follow handler looks the target up among the active users before it
  looks at the blocks: alice blocks the banned user mallory, and her Follow then fails
  with 404, not 403.
\<close>

theorem follow_after_block_not_found:
  "fst (post_block people alice 5 None) = (200, ''User blocked successfully'') \<and>
   fst (post_follow (snd (post_block people alice 5 None)) alice 5) = (404, ''User not found'')"
  by (simp add: post_block_def post_follow_def saveBlock_def findUserById_def
      deleteFollowsBetween_def example_defs)

text \<open>
  Claim C2, amended: after a successful Block(a,b) no follow edge exists between a and b
  in either direction and the block edge a to b exists; and in every state that has this
  block edge and no follow edge from the caller to the target, Follow(a,b) and Follow(b,a)
  change nothing and fail, with 403 when the target is an active user and with 404 when
  it is missing or not active.
\<close>

theorem block_severs_follow:
  assumes ok: "post_block s a b rsn = ((200, msg), s')"
  shows "(\<forall>f\<in>set (follows s'). \<not> (follower f = user_id a \<and> following f = b) \<and>
                             \<not> (follower f = b \<and> following f = user_id a)) \<and>
         (\<exists>k\<in>set (blocks s'). blocker k = user_id a \<and> blocked k = b) \<and>
         (\<forall>t ru tgt.
            (\<exists>k\<in>set (blocks t). blocker k = user_id a \<and> blocked k = b) \<and>
            (\<forall>f\<in>set (follows t). \<not> (follower f = user_id ru \<and> following f = tgt)) \<and>
            ((user_id ru = user_id a \<and> tgt = b) \<or> (user_id ru = b \<and> tgt = user_id a)) \<longrightarrow>
            post_follow t ru tgt =
              ((if find (\<lambda>u. user_id u = tgt \<and> status u = ''active'') (users t) = None
                then (404, ''User not found'') else (403, ''Cannot follow this user'')), t))"
proof (intro conjI allI impI)
  from post_block_ok [OF ok] have ne: "b \<noteq> user_id a"
    and s': "s' = s\<lparr>blocks := blocks s @ [\<lparr>blocker = user_id a, blocked = b, reason = rsn\<rparr>],
                   follows := deleteFollowsBetween (user_id a) b (follows s)\<rparr>"
    by simp_all
  show "\<forall>f\<in>set (follows s'). \<not> (follower f = user_id a \<and> following f = b) \<and>
                             \<not> (follower f = b \<and> following f = user_id a)"
    by (auto simp: s' deleteFollowsBetween_def)
  show "\<exists>k\<in>set (blocks s'). blocker k = user_id a \<and> blocked k = b"
    by (simp add: s')
  fix t :: db and ru :: user and tgt :: oid
  assume h: "(\<exists>k\<in>set (blocks t). blocker k = user_id a \<and> blocked k = b) \<and>
            (\<forall>f\<in>set (follows t). \<not> (follower f = user_id ru \<and> following f = tgt)) \<and>
            ((user_id ru = user_id a \<and> tgt = b) \<or> (user_id ru = b \<and> tgt = user_id a))"
  then have edge: "\<exists>k\<in>set (blocks t). (blocker k = user_id ru \<and> blocked k = tgt) \<or>
                                   (blocker k = tgt \<and> blocked k = user_id ru)"
    by auto
  from h ne have "tgt \<noteq> user_id ru" by auto
  with edge h show "post_follow t ru tgt =
              ((if find (\<lambda>u. user_id u = tgt \<and> status u = ''active'') (users t) = None
                then (404, ''User not found'') else (403, ''Cannot follow this user'')), t)"
    by (intro post_follow_blocked) auto
qed

theorem block_severs_follow_witness:
  "post_block friends alice 4 None = ((200, ''User blocked successfully''), estranged) \<and>
   follows estranged = [] \<and>
   post_follow estranged alice 4 = ((403, ''Cannot follow this user''), estranged) \<and>
   post_follow estranged bob 3 = ((403, ''Cannot follow this user''), estranged)"
proof -
  have ok: "post_block friends alice 4 None = ((200, ''User blocked successfully''), estranged)"
    by (simp add: post_block_def saveBlock_def findUserById_def deleteFollowsBetween_def
        friends_def estranged_def edge_def example_defs)
  note sev = block_severs_follow [OF ok]
  have nofollow: "follows estranged = []"
    by (simp add: estranged_def example_defs)
  have a: "post_follow estranged alice 4 = ((403, ''Cannot follow this user''), estranged)"
    using sev [THEN conjunct2, THEN conjunct2, rule_format, of estranged alice 4]
    by (simp add: estranged_def example_defs)
  have b: "post_follow estranged bob 3 = ((403, ''Cannot follow this user''), estranged)"
    using sev [THEN conjunct2, THEN conjunct2, rule_format, of estranged bob 3]
    by (simp add: estranged_def example_defs)
  from ok nofollow a b show ?thesis by simp
qed

subsection \<open>Review of a report\<close>

text \<open>
  Claim C3, as stated, asks that a review of a report that is already reviewed, resolved
  or dismissed fails or changes nothing. The handler never reads the current status: a
  report reviewed by root is dismissed by ops, and status, notes, reviewer and review time
  are all overwritten.
\<close>

theorem reviewed_report_reviewed_again:
  "rp_status seenReport = ''reviewed'' \<and>
   put_report_review archive ops 20 ''dismissed'' None None 9 =
     ((200, ''Report reviewed successfully''),
      archive\<lparr>reports := [seenReport\<lparr>rp_status := ''dismissed'', adminNotes := None,
                                      reviewedBy := Some 2, reviewedAt := Some 9\<rparr>]\<rparr>) \<and>
   reports (snd (put_report_review archive ops 20 ''dismissed'' None None 9)) \<noteq> reports archive"
  by (simp add: put_report_review_def reviewReport_def takeAction_def archive_def seenReport_def
      selfReport_def example_defs)

text \<open>
  Claim C3, amended: for an existing report, whatever its current status, a review with
  a status among reviewed, resolved, dismissed and admin notes of at most 500 characters
  answers 200 and overwrites status, adminNotes, reviewedBy and reviewedAt with the values
  of the request (so the new status is never pending); any other review of that report
  answers 400 or 500 and changes nothing.
\<close>

theorem review_overwrites:
  assumes rep: "find (\<lambda>r. rp_id r = reportId) (reports s) = Some rep"
  shows "(st \<in> set [''reviewed'', ''resolved'', ''dismissed''] \<and>
          (\<forall>n. notes = Some n \<longrightarrow> length n \<le> 500) \<longrightarrow>
            fst (put_report_review s reqUser reportId st notes action now) =
              (200, ''Report reviewed successfully'') \<and>
            find (\<lambda>r. rp_id r = reportId)
                 (reports (snd (put_report_review s reqUser reportId st notes action now))) =
              Some (rep\<lparr>rp_status := st, adminNotes := notes,
                        reviewedBy := Some (user_id reqUser), reviewedAt := Some now\<rparr>) \<and>
            st \<noteq> ''pending'') \<and>
         (\<not> (st \<in> set [''reviewed'', ''resolved'', ''dismissed''] \<and>
             (\<forall>n. notes = Some n \<longrightarrow> length n \<le> 500)) \<longrightarrow>
            fst (fst (put_report_review s reqUser reportId st notes action now)) \<in> {400, 500} \<and>
            snd (put_report_review s reqUser reportId st notes action now) = s)"
proof (intro conjI impI)
  have id: "rp_id rep = reportId"
    using rep by (auto dest: find_Some_pred)
  {
    assume ok: "st \<in> set [''reviewed'', ''resolved'', ''dismissed''] \<and>
                (\<forall>n. notes = Some n \<longrightarrow> length n \<le> 500)"
    then have n: "\<not> (case notes of None \<Rightarrow> False | Some n \<Rightarrow> length n > 500)"
      by (auto split: option.splits)
    from ok have st: "st \<in> set [''reviewed'', ''resolved'', ''dismissed'']" by simp
    have run: "put_report_review s reqUser reportId st notes action now =
        ((200, ''Report reviewed successfully''),
         takeAction action rep
           (s\<lparr>reports := reviewReport reportId st notes (user_id reqUser) now (reports s)\<rparr>))"
      using st rep n id by (simp add: put_report_review_def)
    show "fst (put_report_review s reqUser reportId st notes action now) =
            (200, ''Report reviewed successfully'')"
      by (simp add: run)
    show "find (\<lambda>r. rp_id r = reportId)
               (reports (snd (put_report_review s reqUser reportId st notes action now))) =
            Some (rep\<lparr>rp_status := st, adminNotes := notes,
                      reviewedBy := Some (user_id reqUser), reviewedAt := Some now\<rparr>)"
      by (simp add: run reports_takeAction find_reviewReport rep)
    show "st \<noteq> ''pending''"
      using st by auto
  }
  {
    assume bad: "\<not> (st \<in> set [''reviewed'', ''resolved'', ''dismissed''] \<and>
                    (\<forall>n. notes = Some n \<longrightarrow> length n \<le> 500))"
    then show "fst (fst (put_report_review s reqUser reportId st notes action now)) \<in> {400, 500}"
      using rep by (auto simp: put_report_review_def split: option.splits)
    from bad show "snd (put_report_review s reqUser reportId st notes action now) = s"
      using rep by (auto simp: put_report_review_def split: option.splits)
  }
qed

theorem review_overwrites_witness:
  "find (\<lambda>r. rp_id r = 20) (reports archive) = Some seenReport \<and>
   fst (put_report_review archive ops 20 ''resolved'' (Some ''again'') None 9) =
     (200, ''Report reviewed successfully'') \<and>
   find (\<lambda>r. rp_id r = 20)
        (reports (snd (put_report_review archive ops 20 ''resolved'' (Some ''again'') None 9))) =
     Some (seenReport\<lparr>rp_status := ''resolved'', adminNotes := Some ''again'',
                      reviewedBy := Some 2, reviewedAt := Some 9\<rparr>) \<and>
   fst (fst (put_report_review archive ops 20 ''pending'' None None 9)) \<in> {400, 500} \<and>
   snd (put_report_review archive ops 20 ''pending'' None None 9) = archive"
proof -
  have rep: "find (\<lambda>r. rp_id r = 20) (reports archive) = Some seenReport"
    by (simp add: archive_def seenReport_def selfReport_def example_defs)
  have u: "user_id ops = 2"
    by (simp add: example_defs)
  have good: "''resolved'' \<in> set [''reviewed'', ''resolved'', ''dismissed''] \<and>
              (\<forall>n. Some ''again'' = Some n \<longrightarrow> length n \<le> 500)"
    by simp
  have bad: "\<not> (''pending'' \<in> set [''reviewed'', ''resolved'', ''dismissed''] \<and>
                (\<forall>n. (None :: string option) = Some n \<longrightarrow> length n \<le> 500))"
    by simp
  from review_overwrites [OF rep, of "''resolved''" "Some ''again''" ops None 9,
      THEN conjunct1, rule_format, OF good] u
  have a: "fst (put_report_review archive ops 20 ''resolved'' (Some ''again'') None 9) =
     (200, ''Report reviewed successfully'') \<and>
   find (\<lambda>r. rp_id r = 20)
        (reports (snd (put_report_review archive ops 20 ''resolved'' (Some ''again'') None 9))) =
     Some (seenReport\<lparr>rp_status := ''resolved'', adminNotes := Some ''again'',
                      reviewedBy := Some 2, reviewedAt := Some 9\<rparr>)"
    by simp
  from review_overwrites [OF rep, of "''pending''" None ops None 9,
      THEN conjunct2, rule_format, OF bad]
  have b: "fst (fst (put_report_review archive ops 20 ''pending'' None None 9)) \<in> {400, 500} \<and>
   snd (put_report_review archive ops 20 ''pending'' None None 9) = archive"
    by simp
  from rep a b show ?thesis by blast
qed

text \<open>
  Claim C10: a review with action block_user or ban_user, on a report whose reportedUser
  is an existing user, sets that user's status to blocked or banned. Nothing is assumed
  about the target: it may be an admin, and it may be the reviewing admin.
\<close>

theorem review_cascade_unguarded:
  assumes admin: "adminOnly s c = Inr reqUser"
    and st: "st \<in> set [''reviewed'', ''resolved'', ''dismissed'']"
    and rep: "find (\<lambda>r. rp_id r = reportId) (reports s) = Some rep"
    and short: "\<forall>n. notes = Some n \<longrightarrow> length n \<le> 500"
    and target: "reportedUser rep = Some uid" "findUserById s uid = Some tu"
    and action: "(action, newStatus) = (Some ''block_user'', ''blocked'') \<or>
                 (action, newStatus) = (Some ''ban_user'', ''banned'')"
  shows "fst (route_put_report_review s c reportId st notes action now) =
           (200, ''Report reviewed successfully'') \<and>
         findUserById (snd (route_put_report_review s c reportId st notes action now)) uid =
           Some (tu\<lparr>status := newStatus\<rparr>)"
proof -
  have n: "\<not> (case notes of None \<Rightarrow> False | Some n \<Rightarrow> length n > 500)"
    using short by (auto split: option.splits)
  have uid: "user_id tu = uid"
    using target(2) by (auto simp: findUserById_def dest: find_Some_pred)
  from action show ?thesis
  proof
    assume "(action, newStatus) = (Some ''block_user'', ''blocked'')"
    then show ?thesis
      using st rep n target uid
      by (simp add: route_put_report_review_def admin put_report_review_def takeAction_def
          findUserById_def find_setUserStatus)
  next
    assume "(action, newStatus) = (Some ''ban_user'', ''banned'')"
    then show ?thesis
      using st rep n target uid
      by (simp add: route_put_report_review_def admin put_report_review_def takeAction_def
          findUserById_def find_setUserStatus)
  qed
qed

theorem review_cascade_unguarded_witness:
  "isAdmin root \<and> adminOnly docket (TokenFor 1) = Inr root \<and>
   fst (route_put_report_review docket (TokenFor 1) 20 ''resolved'' None (Some ''ban_user'') 9) =
     (200, ''Report reviewed successfully'') \<and>
   findUserById (snd (route_put_report_review docket (TokenFor 1) 20 ''resolved'' None
       (Some ''ban_user'') 9)) 1 = Some (root\<lparr>status := ''banned''\<rparr>)"
proof -
  have admin: "adminOnly docket (TokenFor 1) = Inr root"
    by (simp add: adminOnly_def authenticateToken_def requireAdmin_def findUserById_def
        docket_def example_defs)
  have st: "''resolved'' \<in> set [''reviewed'', ''resolved'', ''dismissed'']"
    by simp
  have rep: "find (\<lambda>r. rp_id r = 20) (reports docket) = Some selfReport"
    by (simp add: docket_def selfReport_def example_defs)
  have short: "\<forall>n. (None :: string option) = Some n \<longrightarrow> length n \<le> 500"
    by simp
  have t1: "reportedUser selfReport = Some 1"
    by (simp add: selfReport_def)
  have t2: "findUserById docket 1 = Some root"
    by (simp add: findUserById_def docket_def example_defs)
  have action: "(Some ''ban_user'', ''banned'') = (Some ''block_user'', ''blocked'') \<or>
                (Some ''ban_user'', ''banned'') = (Some ''ban_user'', ''banned'')"
    by simp
  have "isAdmin root" by (simp add: example_defs)
  then show ?thesis
    using admin review_cascade_unguarded [OF admin st rep short t1 t2 action, of 9]
    by simp
qed

subsection \<open>Profile lookup\<close>

text \<open>
  Claim C4, as stated, asks for Forbidden when a block exists in either direction. The
  lookup only asks whether the profile's owner blocked the viewer: alice has blocked bob,
  and alice still gets bob's profile.
\<close>

theorem blocker_sees_blocked_profile:
  "optionalAuth grudge (TokenFor 3) = Some alice \<and>
   isBlockedEitherWay grudge 3 4 \<noteq> None \<and>
   fst (route_get_user grudge (TokenFor 3) ''bob'') = (200, [])"
  by (simp add: route_get_user_def get_user_def optionalAuth_def findUserById_def
      isBlockedEitherWay_def grudge_def example_defs)

text \<open>
  Claim C4, amended: for an authenticated viewer v and an active user u found by the
  identifier, the lookup answers 403 exactly when u has blocked v, and 200 otherwise;
  a block from v to u plays no part.
\<close>

theorem profile_hidden_from_blocked:
  assumes "find (\<lambda>u. (username u = identifier \<or> messageLink u = identifier) \<and>
                      status u = ''active'') (users s) = Some u"
  shows "fst (get_user s (Some v) identifier) =
           (if \<exists>k\<in>set (blocks s). blocker k = user_id u \<and> blocked k = user_id v
            then (403, ''You are blocked by this user'') else (200, []))"
  using assms by (auto simp: get_user_def find_None_iff)

theorem profile_hidden_from_blocked_witness:
  "find (\<lambda>u. (username u = ''alice'' \<or> messageLink u = ''alice'') \<and> status u = ''active'')
     (users grudge) = Some alice \<and>
   fst (get_user grudge (Some bob) ''alice'') = (403, ''You are blocked by this user'')"
proof -
  have f: "find (\<lambda>u. (username u = ''alice'' \<or> messageLink u = ''alice'') \<and> status u = ''active'')
     (users grudge) = Some alice"
    by (simp add: grudge_def example_defs)
  have b: "\<exists>k\<in>set (blocks grudge). blocker k = user_id alice \<and> blocked k = user_id bob"
    by (simp add: grudge_def example_defs)
  from profile_hidden_from_blocked [OF f, of bob] b f show ?thesis
    by simp
qed

subsection \<open>Sending and the inbox\<close>

lemma post_send_mail_log: "mail_log (snd (post_send s ru body newId now)) = mail_log s"
  by (simp add: post_send_def split: sum.splits prod.splits option.splits)

lemma post_send_created:
  assumes "post_send s reqUser body newId now = ((201, msg), s')"
  shows "\<exists>rid content img anon.
           sendMessageSchema body = Inr (rid, content, img, anon) \<and>
           s' = s\<lparr>messages := messages s @ [newMessage reqUser rid content img anon newId now]\<rparr>"
  using assms
  by (auto simp: post_send_def split: sum.splits prod.splits option.splits if_splits)

lemma sendMessageSchema_anon:
  "sendMessageSchema body = Inr (rid, content, img, anon) \<Longrightarrow>
   anon = (sb_isAnonymous body \<noteq> Some False)"
  by (auto simp: sendMessageSchema_def split: option.splits if_splits)

lemma inbox_items:
  "set (fst (snd (get_inbox s u qp ql))) \<subseteq> formatMessage s ` set (messages s)"
proof -
  let ?srt = "sort_key (\<lambda>m. - int (m_createdAt m)) (filter (\<lambda>m. m_recipient m = user_id u) (messages s))"
  have "set (take (queryNumber ql 20) (drop ((queryNumber qp 1 - 1) * queryNumber ql 20) ?srt)) \<subseteq> set ?srt"
    by (meson set_take_subset set_drop_subset subset_trans)
  also have "\<dots> \<subseteq> set (messages s)" by auto
  finally show ?thesis
    by (auto simp: get_inbox_def Let_def)
qed

lemma optionalAuth_unauth:
  assumes "c = NoToken \<or> c = InvalidToken \<or> c = ExpiredToken \<or>
           (\<exists>i. c = TokenFor i \<and> (\<forall>u. findUserById s i = Some u \<longrightarrow> status u \<noteq> ''active''))"
  shows "optionalAuth s c = None"
  using assms by (auto simp: optionalAuth_def split: option.splits)

text \<open>
  Claim C5: a message sent with isAnonymous true (the default) is stored with sender
  null, whoever the caller is; the projection of a message whose anonymity flag is true
  has sender null and does not depend on the stored sender; and every item of an inbox
  page whose flag is true has sender null.
\<close>

theorem anonymous_sender_hidden:
  "(\<forall>msg s'. sb_isAnonymous body \<noteq> Some False \<longrightarrow>
        post_send s reqUser body newId now = ((201, msg), s') \<longrightarrow>
        (\<exists>m. messages s' = messages s @ [m] \<and> m_isAnonymous m \<and> m_sender m = None)) \<and>
   (m_isAnonymous m \<longrightarrow>
        i_sender (formatMessage s m) = None \<and>
        formatMessage s (m\<lparr>m_sender := x\<rparr>) = formatMessage s m) \<and>
   (\<forall>it \<in> set (fst (snd (get_inbox s u qp ql))). i_isAnonymous it \<longrightarrow> i_sender it = None)"
proof (intro conjI allI impI ballI)
  fix msg s'
  assume anon: "sb_isAnonymous body \<noteq> Some False"
    and ok: "post_send s reqUser body newId now = ((201, msg), s')"
  from post_send_created [OF ok] obtain rid content img a where
    v: "sendMessageSchema body = Inr (rid, content, img, a)" and
    s': "s' = s\<lparr>messages := messages s @ [newMessage reqUser rid content img a newId now]\<rparr>"
    by blast
  from sendMessageSchema_anon [OF v] anon have "a" by simp
  then show "\<exists>m. messages s' = messages s @ [m] \<and> m_isAnonymous m \<and> m_sender m = None"
    using s' by (simp add: newMessage_def split: option.splits)
next
  assume "m_isAnonymous m"
  then show "i_sender (formatMessage s m) = None"
    by (simp add: formatMessage_def)
next
  assume "m_isAnonymous m"
  then show "formatMessage s (m\<lparr>m_sender := x\<rparr>) = formatMessage s m"
    by (simp add: formatMessage_def)
next
  fix it
  assume "it \<in> set (fst (snd (get_inbox s u qp ql)))" and a: "i_isAnonymous it"
  with inbox_items obtain m' where "it = formatMessage s m'" by blast
  with a show "i_sender it = None"
    by (simp add: formatMessage_def split: if_splits)
qed

theorem anonymous_sender_hidden_witness:
  "sb_isAnonymous hello \<noteq> Some False \<and>
   fst (post_send people (Some alice) hello 10 7) = (201, ''Message sent successfully'') \<and>
   (\<exists>m. messages (snd (post_send people (Some alice) hello 10 7)) = messages people @ [m] \<and>
        m_isAnonymous m \<and> m_sender m = None) \<and>
   m_isAnonymous leaked \<and> m_sender leaked = Some 3 \<and>
   i_sender (formatMessage inboxDb leaked) = None \<and>
   formatMessage inboxDb (leaked\<lparr>m_sender := None\<rparr>) = formatMessage inboxDb leaked \<and>
   fst (snd (get_inbox inboxDb bob None None)) = [formatMessage inboxDb leaked] \<and>
   map i_sender (fst (snd (get_inbox inboxDb bob None None))) = [None]"
proof -
  have h: "sb_isAnonymous hello \<noteq> Some False"
    by (simp add: hello_def)
  have code: "fst (post_send people (Some alice) hello 10 7) = (201, ''Message sent successfully'')"
    by (simp add: post_send_def sendMessageSchema_def isBlockedEitherWay_def hello_def example_defs)
  then have sent: "post_send people (Some alice) hello 10 7 =
      ((201, ''Message sent successfully''), snd (post_send people (Some alice) hello 10 7))"
    by (metis prod.collapse)
  have l: "m_isAnonymous leaked" "m_sender leaked = Some 3"
    by (simp_all add: leaked_def newMessage_def)
  have box: "fst (snd (get_inbox inboxDb bob None None)) = [formatMessage inboxDb leaked]"
    by (simp add: get_inbox_def queryNumber_def inboxDb_def leaked_def newMessage_def example_defs)
  note hid = anonymous_sender_hidden [where body = hello and s = people and reqUser = "Some alice"
      and newId = 10 and now = 7]
  note hid2 = anonymous_sender_hidden [where s = inboxDb and m = leaked and x = None
      and u = bob and qp = None and ql = None]
  from hid [THEN conjunct1, rule_format, OF h sent] code
  have one: "fst (post_send people (Some alice) hello 10 7) = (201, ''Message sent successfully'') \<and>
     (\<exists>m. messages (snd (post_send people (Some alice) hello 10 7)) = messages people @ [m] \<and>
        m_isAnonymous m \<and> m_sender m = None)"
    by simp
  from hid2 l(1) have two: "i_sender (formatMessage inboxDb leaked) = None \<and>
      formatMessage inboxDb (leaked\<lparr>m_sender := None\<rparr>) = formatMessage inboxDb leaked \<and>
      (\<forall>it\<in>set (fst (snd (get_inbox inboxDb bob None None))). i_isAnonymous it \<longrightarrow> i_sender it = None)"
    by blast
  from two box l(1) have three: "map i_sender (fst (snd (get_inbox inboxDb bob None None))) = [None]"
    by (simp add: formatMessage_def)
  from h one l two box three show ?thesis by blast
qed

text \<open>
  Claim C7 says that a successful Send to a recipient whose emailNotifications is true
  invokes the notifier. Evaluated on the code: alice sends to bob, whose preference is
  true; the message is stored, the answer is 201 and no mail was sent. The handler has no
  call of the mail service (\<open>post_send_mail_log\<close>).
\<close>

theorem send_does_not_notify:
  "emailNotifications bob \<and>
   route_post_send people (TokenFor 3) hello 10 7 =
     ((201, ''Message sent successfully''),
      people\<lparr>messages := [newMessage (Some alice) 4 ''hello'' None True 10 7]\<rparr>) \<and>
   mail_log (snd (route_post_send people (TokenFor 3) hello 10 7)) = []"
  by (simp add: route_post_send_def optionalAuth_def post_send_def sendMessageSchema_def
      isBlockedEitherWay_def findUserById_def hello_def example_defs)

text \<open>
  Claim C9: when the caller of Send is not authenticated (no token, an invalid or expired
  token, or the token of a user who is missing or not active), an anonymous message with
  a valid body to an active recipient who accepts anonymous messages is stored and
  answered with 201; the blocks and the self-send test are not consulted.
\<close>

theorem unauthenticated_send_skips_block_check:
  assumes unauth: "c = NoToken \<or> c = InvalidToken \<or> c = ExpiredToken \<or>
           (\<exists>i. c = TokenFor i \<and> (\<forall>u. findUserById s i = Some u \<longrightarrow> status u \<noteq> ''active''))"
    and body: "sendMessageSchema body = Inr (rid, content, img, True)"
    and recipient: "find (\<lambda>u. user_id u = rid \<and> status u = ''active'') (users s) = Some r"
    and accepts: "allowAnonymousMessages r"
  shows "route_post_send s c body newId now =
           ((201, ''Message sent successfully''),
            s\<lparr>messages := messages s @ [newMessage None rid content img True newId now]\<rparr>)"
  using body recipient accepts
  by (simp add: route_post_send_def optionalAuth_unauth [OF unauth] post_send_def)

theorem unauthenticated_send_skips_block_check_witness:
  "isBlockedEitherWay feud 5 4 \<noteq> None \<and>
   route_post_send feud (TokenFor 5) hello 10 7 =
     ((201, ''Message sent successfully''),
      feud\<lparr>messages := [newMessage None 4 ''hello'' None True 10 7]\<rparr>)"
proof -
  have unauth: "TokenFor 5 = NoToken \<or> TokenFor 5 = InvalidToken \<or> TokenFor 5 = ExpiredToken \<or>
      (\<exists>i. TokenFor 5 = TokenFor i \<and> (\<forall>u. findUserById feud i = Some u \<longrightarrow> status u \<noteq> ''active''))"
    by (simp add: findUserById_def feud_def example_defs)
  have body: "sendMessageSchema hello = Inr (4, ''hello'', None, True)"
    by (simp add: sendMessageSchema_def hello_def)
  have recipient: "find (\<lambda>u. user_id u = 4 \<and> status u = ''active'') (users feud) = Some bob"
    by (simp add: feud_def example_defs)
  have accepts: "allowAnonymousMessages bob"
    by (simp add: example_defs)
  have "messages feud = []"
    by (simp add: feud_def example_defs)
  moreover have "isBlockedEitherWay feud 5 4 \<noteq> None"
    by (simp add: isBlockedEitherWay_def feud_def example_defs)
  ultimately show ?thesis
    using unauthenticated_send_skips_block_check [OF unauth body recipient accepts, of 10 7]
    by simp
qed

subsection \<open>Marking a message as read\<close>

lemma put_read_owned:
  "findOwnMessage s mid (user_id u) = Some m \<Longrightarrow>
   put_read s u mid = ((200, ''Message marked as read''), s\<lparr>messages := markRead mid (messages s)\<rparr>)"
  by (auto simp: put_read_def findOwnMessage_def dest: find_Some_pred)

lemma findOwn_markRead:
  "findOwnMessage (s\<lparr>messages := markRead j (messages s)\<rparr>) i u =
   map_option (\<lambda>m. if m_id m = j then m\<lparr>m_isRead := True\<rparr> else m) (findOwnMessage s i u)"
  by (simp add: findOwnMessage_def find_markRead)

text \<open>
  Claim C8: Read on a message that is not the caller's answers 404 and changes nothing;
  Read on the caller's message answers 200 and sets the read flag of that message, every
  other field and every other message staying as it was; a second Read answers 200 again
  and changes nothing.
\<close>

theorem read_idempotent:
  "(findOwnMessage s mid (user_id u) = None \<longrightarrow>
      put_read s u mid = ((404, ''Message not found''), s)) \<and>
   (\<forall>m. findOwnMessage s mid (user_id u) = Some m \<longrightarrow>
      put_read s u mid =
        ((200, ''Message marked as read''),
         s\<lparr>messages := map (\<lambda>x. if m_id x = mid then x\<lparr>m_isRead := True\<rparr> else x) (messages s)\<rparr>) \<and>
      findOwnMessage (snd (put_read s u mid)) mid (user_id u) = Some (m\<lparr>m_isRead := True\<rparr>) \<and>
      put_read (snd (put_read s u mid)) u mid =
        ((200, ''Message marked as read''), snd (put_read s u mid)))"
proof (intro conjI allI impI)
  assume "findOwnMessage s mid (user_id u) = None"
  then show "put_read s u mid = ((404, ''Message not found''), s)"
    by (simp add: put_read_def)
next
  fix m assume m: "findOwnMessage s mid (user_id u) = Some m"
  then have mid: "m_id m = mid"
    by (auto simp: findOwnMessage_def dest: find_Some_pred)
  show step: "put_read s u mid =
        ((200, ''Message marked as read''),
         s\<lparr>messages := map (\<lambda>x. if m_id x = mid then x\<lparr>m_isRead := True\<rparr> else x) (messages s)\<rparr>)"
    using put_read_owned [OF m] by (simp add: markRead_def)
  show found: "findOwnMessage (snd (put_read s u mid)) mid (user_id u) = Some (m\<lparr>m_isRead := True\<rparr>)"
    using m mid by (simp add: put_read_owned [OF m] findOwn_markRead)
  show "put_read (snd (put_read s u mid)) u mid =
        ((200, ''Message marked as read''), snd (put_read s u mid))"
    using put_read_owned [OF found] by (simp add: put_read_owned [OF m] markRead_idem)
qed

theorem read_idempotent_witness:
  "findOwnMessage inboxDb 11 (user_id alice) = None \<and>
   put_read inboxDb alice 11 = ((404, ''Message not found''), inboxDb) \<and>
   findOwnMessage inboxDb 11 (user_id bob) = Some leaked \<and>
   put_read inboxDb bob 11 =
     ((200, ''Message marked as read''), inboxDb\<lparr>messages := [leaked\<lparr>m_isRead := True\<rparr>]\<rparr>) \<and>
   put_read (inboxDb\<lparr>messages := [leaked\<lparr>m_isRead := True\<rparr>]\<rparr>) bob 11 =
     ((200, ''Message marked as read''), inboxDb\<lparr>messages := [leaked\<lparr>m_isRead := True\<rparr>]\<rparr>)"
proof -
  have n: "findOwnMessage inboxDb 11 (user_id alice) = None"
    by (simp add: findOwnMessage_def inboxDb_def leaked_def newMessage_def example_defs)
  have o: "findOwnMessage inboxDb 11 (user_id bob) = Some leaked"
    by (simp add: findOwnMessage_def inboxDb_def leaked_def newMessage_def example_defs)
  have i: "messages inboxDb = [leaked]" "m_id leaked = 11"
    by (simp_all add: inboxDb_def leaked_def newMessage_def example_defs)
  from n read_idempotent [of inboxDb 11 alice]
  have r0: "put_read inboxDb alice 11 = ((404, ''Message not found''), inboxDb)"
    by blast
  from o read_idempotent [of inboxDb 11 bob]
  have r1: "put_read inboxDb bob 11 =
      ((200, ''Message marked as read''),
       inboxDb\<lparr>messages := map (\<lambda>x. if m_id x = 11 then x\<lparr>m_isRead := True\<rparr> else x)
         (messages inboxDb)\<rparr>)"
    and r2: "put_read (snd (put_read inboxDb bob 11)) bob 11 =
      ((200, ''Message marked as read''), snd (put_read inboxDb bob 11))"
    by blast+
  have r1': "put_read inboxDb bob 11 =
      ((200, ''Message marked as read''), inboxDb\<lparr>messages := [leaked\<lparr>m_isRead := True\<rparr>]\<rparr>)"
    using r1 i by simp
  have r2': "put_read (inboxDb\<lparr>messages := [leaked\<lparr>m_isRead := True\<rparr>]\<rparr>) bob 11 =
      ((200, ''Message marked as read''), inboxDb\<lparr>messages := [leaked\<lparr>m_isRead := True\<rparr>]\<rparr>)"
    using r2 unfolding r1' by simp
  from n o r0 r1' r2' show ?thesis by blast
qed

subsection \<open>Status codes of uniqueness violations\<close>

text \<open>
  Claim C6, as stated, asks for status 409. A second Follow over an existing edge is
  answered with 400.
\<close>

theorem duplicate_follow_is_400:
  "follows busy = [edge (user_id alice) 4] \<and>
   post_follow busy alice 4 = ((400, ''Already following this user''), busy) \<and>
   fst (fst (post_follow busy alice 4)) \<noteq> 409"
  by (simp add: post_follow_def busy_def edge_def example_defs)

text \<open>
  Claim C6, amended: a Follow of an active user other than the caller over an existing
  edge, a Reply with a valid body on a message of the caller that already has a reply,
  and a Report with type and description on an existing message that the caller has
  already reported are each answered with 400 and change nothing.
\<close>

theorem conflicts_are_400:
  "(userId \<noteq> user_id reqUser \<and>
    find (\<lambda>u. user_id u = userId \<and> status u = ''active'') (users s) \<noteq> None \<and>
    find (\<lambda>f. follower f = user_id reqUser \<and> following f = userId) (follows s) \<noteq> None \<longrightarrow>
      post_follow s reqUser userId = ((400, ''Already following this user''), s)) \<and>
   (replyMessageSchema rbody = Inr (content, isPublic) \<and>
    findOwnMessage s messageId (user_id reqUser) = Some m \<and> hasReply m \<longrightarrow>
      post_reply s reqUser messageId rbody now = ((400, ''Message already has a reply''), s)) \<and>
   (rq_type qbody = Some ty \<and> ty \<noteq> [] \<and> rq_description qbody = Some descr \<and> descr \<noteq> [] \<and>
    findMessageById s messageId = Some m \<and>
    find (\<lambda>r. reporter r = user_id reqUser \<and> reportedMessage r = Some (m_id m)) (reports s) \<noteq> None \<longrightarrow>
      post_report s reqUser messageId qbody newId = ((400, ''Message already reported''), s))"
proof (intro conjI impI)
  assume "userId \<noteq> user_id reqUser \<and>
    find (\<lambda>u. user_id u = userId \<and> status u = ''active'') (users s) \<noteq> None \<and>
    find (\<lambda>f. follower f = user_id reqUser \<and> following f = userId) (follows s) \<noteq> None"
  then show "post_follow s reqUser userId = ((400, ''Already following this user''), s)"
    by (auto simp: post_follow_def)
next
  assume "replyMessageSchema rbody = Inr (content, isPublic) \<and>
    findOwnMessage s messageId (user_id reqUser) = Some m \<and> hasReply m"
  then show "post_reply s reqUser messageId rbody now = ((400, ''Message already has a reply''), s)"
    by (simp add: post_reply_def)
next
  assume "rq_type qbody = Some ty \<and> ty \<noteq> [] \<and> rq_description qbody = Some descr \<and> descr \<noteq> [] \<and>
    findMessageById s messageId = Some m \<and>
    find (\<lambda>r. reporter r = user_id reqUser \<and> reportedMessage r = Some (m_id m)) (reports s) \<noteq> None"
  then show "post_report s reqUser messageId qbody newId = ((400, ''Message already reported''), s)"
    by (auto simp: post_report_def)
qed

theorem conflicts_are_400_witness:
  "post_follow busy alice 4 = ((400, ''Already following this user''), busy) \<and>
   post_reply busy bob 12 again 9 = ((400, ''Message already has a reply''), busy) \<and>
   post_report busy alice 12 complaint 21 = ((400, ''Message already reported''), busy)"
proof -
  have f: "4 \<noteq> user_id alice \<and>
      find (\<lambda>u. user_id u = 4 \<and> status u = ''active'') (users busy) \<noteq> None \<and>
      find (\<lambda>f. follower f = user_id alice \<and> following f = 4) (follows busy) \<noteq> None"
    by (simp add: busy_def edge_def example_defs)
  have r: "replyMessageSchema again = Inr (''more'', False) \<and>
      findOwnMessage busy 12 (user_id bob) = Some answered \<and> hasReply answered"
    by (simp add: replyMessageSchema_def again_def findOwnMessage_def hasReply_def busy_def
        answered_def newMessage_def example_defs)
  have q: "rq_type complaint = Some ''spam'' \<and> ''spam'' \<noteq> [] \<and>
      rq_description complaint = Some ''junk'' \<and> ''junk'' \<noteq> [] \<and>
      findMessageById busy 12 = Some answered \<and>
      find (\<lambda>r. reporter r = user_id alice \<and> reportedMessage r = Some (m_id answered))
        (reports busy) \<noteq> None"
    by (simp add: complaint_def findMessageById_def busy_def answered_def newMessage_def
        selfReport_def example_defs)
  note c = conflicts_are_400 [where s = busy and m = answered]
  from c [where userId = 4 and reqUser = alice, THEN conjunct1, rule_format, OF f]
  have a: "post_follow busy alice 4 = ((400, ''Already following this user''), busy)" .
  from c [where reqUser = bob and messageId = 12 and rbody = again and now = 9,
      THEN conjunct2, THEN conjunct1, rule_format, OF r]
  have b: "post_reply busy bob 12 again 9 = ((400, ''Message already has a reply''), busy)" .
  from c [where reqUser = alice and messageId = 12 and qbody = complaint and newId = 21,
      THEN conjunct2, THEN conjunct2, rule_format, OF q]
  have d: "post_report busy alice 12 complaint 21 = ((400, ''Message already reported''), busy)" .
  from a b d show ?thesis by blast
qed

end
